theory Spec2Isabelle
  imports Main
begin

section \<open>Data model (types.ts)\<close>

text \<open>
  The error-correction level is the string union \<open>'L' | 'M' | 'Q' | 'H'\<close>.
\<close>

datatype ErrorCorrectionLevel = L | M | Q | H

text \<open>
  The optional \<open>imageSettings\<close> object of \<open>QRCodeOptions\<close>. The type \<open>number\<close> is
  modelled as \<open>int\<close>: no handler of the application does arithmetic on a number, they
  are only stored and passed on.
\<close>

record imageSettings_t =
  src :: string
  height :: int
  width :: int
  excavate :: bool

text \<open>
  \<open>interface QRCodeOptions\<close>. The field \<open>size\<close> is called \<open>size_px\<close> here (\<open>size\<close> is a
  constant of HOL); the optional field is an \<open>option\<close>, \<open>None\<close> when it is absent or
  \<open>undefined\<close>.
\<close>

record QRCodeOptions =
  size_px :: int
  level :: ErrorCorrectionLevel
  bgColor :: string
  fgColor :: string
  includeMargin :: bool
  marginSize :: int
  imageSettings :: "imageSettings_t option"

text \<open>\<open>interface PresetStyle\<close>; the fields carry the prefix \<open>p_\<close>.\<close>

record PresetStyle =
  p_name :: string
  p_bgColor :: string
  p_fgColor :: string
  p_icon :: string
  p_color :: string

section \<open>The preset catalogue (App.tsx, lines 8 to 15)\<close>

text \<open>The icons are emoji; they are written as their UTF-8 bytes.\<close>

definition presetStyles :: "PresetStyle list" where
  "presetStyles =
    [\<lparr>p_name = ''Classic'', p_bgColor = ''#FFFFFF'', p_fgColor = ''#000000'',
      p_icon = [CHR 0xE2, CHR 0x9A, CHR 0xAB], p_color = ''white''\<rparr>,
     \<lparr>p_name = ''Ocean'', p_bgColor = ''#E0F2FE'', p_fgColor = ''#0C4A6E'',
      p_icon = [CHR 0xF0, CHR 0x9F, CHR 0x8C, CHR 0x8A], p_color = ''white''\<rparr>,
     \<lparr>p_name = ''Forest'', p_bgColor = ''#D1FAE5'', p_fgColor = ''#064E3B'',
      p_icon = [CHR 0xF0, CHR 0x9F, CHR 0x8C, CHR 0xB2], p_color = ''white''\<rparr>,
     \<lparr>p_name = ''Sunset'', p_bgColor = ''#FEE2E2'', p_fgColor = ''#7F1D1D'',
      p_icon = [CHR 0xF0, CHR 0x9F, CHR 0x8C, CHR 0x85], p_color = ''white''\<rparr>,
     \<lparr>p_name = ''Night'', p_bgColor = ''#1E293B'', p_fgColor = ''#E2E8F0'',
      p_icon = [CHR 0xF0, CHR 0x9F, CHR 0x8C, CHR 0x99], p_color = ''black''\<rparr>,
     \<lparr>p_name = ''Purple'', p_bgColor = ''#EDE9FE'', p_fgColor = ''#4C1D95'',
      p_icon = [CHR 0xF0, CHR 0x9F, CHR 0x92, CHR 0x9C], p_color = ''white''\<rparr>]"

section \<open>The state of the component and of its surroundings\<close>

text \<open>
  A notification of \<open>react-hot-toast\<close>: \<open>toast.success(msg)\<close> or \<open>toast.error(msg)\<close>.
\<close>

datatype toast = ToastSuccess string | ToastError string

text \<open>
  The three \<open>useState\<close> cells of \<open>App\<close> (\<open>text\<close>, called \<open>text_state\<close> here, \<open>copied\<close>
  and \<open>options\<close>) together with what the handlers do to the world outside the
  component: the notifications emitted so far, the lines written by \<open>console.error\<close>,
  the files handed to the browser for saving (file name and image), the image on the
  system clipboard, and the timers set by \<open>setTimeout\<close> (each one the instant, in
  milliseconds, at which its callback \<open>setCopied(false)\<close> is due) with the clock \<open>now\<close>
  they are measured against. The type \<open>'c\<close> is the canvas the external component
  \<open>QRCodeCanvas\<close> draws.
\<close>

record 'c app_state =
  text_state :: string
  copied :: bool
  options :: QRCodeOptions
  toasts :: "toast list"
  console :: "string list"
  downloads :: "(string \<times> 'c) list"
  clipboard :: "'c option"
  now :: nat
  timers :: "nat list"

text \<open>The initial value of \<open>options\<close> (lines 23 to 30).\<close>

definition initial_options :: QRCodeOptions where
  "initial_options =
    \<lparr>size_px = 300, level = M, bgColor = ''#FFFFFF'', fgColor = ''#000000'',
     includeMargin = True, marginSize = 4, imageSettings = None\<rparr>"

text \<open>The component when it is mounted: \<open>text = ''\<close>, \<open>copied = false\<close>.\<close>

definition initial_state :: "'c app_state" where
  "initial_state =
    \<lparr>text_state = [], copied = False, options = initial_options, toasts = [],
     console = [], downloads = [], clipboard = None, now = 0, timers = []\<rparr>"

section \<open>The state handlers\<close>

text \<open>\<open>handleTextChange\<close>: \<open>setText(e.target.value)\<close>.\<close>

definition handleTextChange :: "string \<Rightarrow> 'c app_state \<Rightarrow> 'c app_state" where
  "handleTextChange v w = w\<lparr>text_state := v\<rparr>"

text \<open>
  \<open>updateOption\<close> takes a key \<open>K extends keyof QRCodeOptions\<close> and a value of type
  \<open>QRCodeOptions[K]\<close>: a key together with a value of that key's type, which is one
  constructor of \<open>binding\<close> for each key.
\<close>

datatype option_key =
  K_size | K_level | K_bgColor | K_fgColor | K_includeMargin | K_marginSize | K_imageSettings

datatype binding =
    Size int
  | Level ErrorCorrectionLevel
  | BgColor string
  | FgColor string
  | IncludeMargin bool
  | MarginSize int
  | ImageSettings "imageSettings_t option"

fun key_of :: "binding \<Rightarrow> option_key" where
  "key_of (Size _) = K_size"
| "key_of (Level _) = K_level"
| "key_of (BgColor _) = K_bgColor"
| "key_of (FgColor _) = K_fgColor"
| "key_of (IncludeMargin _) = K_includeMargin"
| "key_of (MarginSize _) = K_marginSize"
| "key_of (ImageSettings _) = K_imageSettings"

text \<open>The property read \<open>opts[key]\<close>, returned with its key.\<close>

fun lookup :: "option_key \<Rightarrow> QRCodeOptions \<Rightarrow> binding" where
  "lookup K_size opts = Size (size_px opts)"
| "lookup K_level opts = Level (level opts)"
| "lookup K_bgColor opts = BgColor (bgColor opts)"
| "lookup K_fgColor opts = FgColor (fgColor opts)"
| "lookup K_includeMargin opts = IncludeMargin (includeMargin opts)"
| "lookup K_marginSize opts = MarginSize (marginSize opts)"
| "lookup K_imageSettings opts = ImageSettings (imageSettings opts)"

text \<open>The object spread \<open>{ ...prev, [key]: value }\<close>.\<close>

fun spread_with :: "QRCodeOptions \<Rightarrow> binding \<Rightarrow> QRCodeOptions" where
  "spread_with prev (Size v) = prev\<lparr>size_px := v\<rparr>"
| "spread_with prev (Level v) = prev\<lparr>level := v\<rparr>"
| "spread_with prev (BgColor v) = prev\<lparr>bgColor := v\<rparr>"
| "spread_with prev (FgColor v) = prev\<lparr>fgColor := v\<rparr>"
| "spread_with prev (IncludeMargin v) = prev\<lparr>includeMargin := v\<rparr>"
| "spread_with prev (MarginSize v) = prev\<lparr>marginSize := v\<rparr>"
| "spread_with prev (ImageSettings v) = prev\<lparr>imageSettings := v\<rparr>"

text \<open>\<open>updateOption\<close>: \<open>setOptions(prev => ({ ...prev, [key]: value }))\<close>.\<close>

definition updateOption :: "binding \<Rightarrow> 'c app_state \<Rightarrow> 'c app_state" where
  "updateOption b w = w\<lparr>options := spread_with (options w) b\<rparr>"

text \<open>
  \<open>applyPreset\<close>: the two colours are overwritten in the spread of \<open>prev\<close>, then
  \<open>toast.success(`Applied ${preset.name} style!`)\<close>.
\<close>

definition applyPreset :: "PresetStyle \<Rightarrow> 'c app_state \<Rightarrow> 'c app_state" where
  "applyPreset preset w =
    w\<lparr>options := (options w)\<lparr>bgColor := p_bgColor preset, fgColor := p_fgColor preset\<rparr>,
      toasts := toasts w @ [ToastSuccess (''Applied '' @ p_name preset @ '' style!'')]\<rparr>"

text \<open>
  \<open>resetOptions\<close>: \<open>setOptions\<close> of the object literal of lines 98 to 105, \<open>setText('')\<close>,
  then \<open>toast.success('Reset to defaults')\<close>.
\<close>

definition resetOptions :: "'c app_state \<Rightarrow> 'c app_state" where
  "resetOptions w =
    w\<lparr>options :=
        \<lparr>size_px = 300, level = M, bgColor = ''#FFFFFF'', fgColor = ''#000000'',
         includeMargin = True, marginSize = 4, imageSettings = None\<rparr>,
      text_state := [],
      toasts := toasts w @ [ToastSuccess ''Reset to defaults'']\<rparr>"

section \<open>The preview (the render branch of lines 299 to 349)\<close>

text \<open>
  The props \<open>App\<close> passes to \<open>QRCodeCanvas\<close>: \<open>value\<close>, \<open>size\<close>, \<open>level\<close>, \<open>bgColor\<close>,
  \<open>fgColor\<close> and \<open>includeMargin\<close> (prefixed with \<open>c_\<close> here).
\<close>

record canvas_props =
  c_value :: string
  c_size :: int
  c_level :: ErrorCorrectionLevel
  c_bgColor :: string
  c_fgColor :: string
  c_includeMargin :: bool

definition QRCodeCanvas_props :: "'c app_state \<Rightarrow> canvas_props" where
  "QRCodeCanvas_props w =
    \<lparr>c_value = text_state w, c_size = size_px (options w), c_level = level (options w),
     c_bgColor = bgColor (options w), c_fgColor = fgColor (options w),
     c_includeMargin = includeMargin (options w)\<rparr>"

text \<open>
  What the preview pane holds. The condition is \<open>text ? ... : ...\<close>, and a string is
  falsy exactly when it is empty: with empty text the placeholder is shown. Otherwise
  \<open>QRCodeCanvas\<close> is rendered inside the \<open>div\<close> that \<open>qrRef\<close> points to.
  \<open>QRCodeCanvas\<close> belongs to the library \<open>qrcode.react\<close>; it is the parameter \<open>R\<close>, a
  function from its props to the canvas it draws, or to \<open>None\<close> when it throws because
  it cannot encode the text (\<open>RangeError: Data too long\<close>). \<open>App\<close> has no \<open>try\<close> and no
  error boundary around it, so the error leaves \<open>App\<close> and React unmounts the whole
  tree: neither the canvas nor the placeholder is left.
\<close>

datatype 'c preview = QRPreview 'c | Placeholder | Unmounted

definition render_preview :: "(canvas_props \<Rightarrow> 'c option) \<Rightarrow> 'c app_state \<Rightarrow> 'c preview" where
  "render_preview R w =
    (if text_state w \<noteq> [] then
       (case R (QRCodeCanvas_props w) of Some c \<Rightarrow> QRPreview c | None \<Rightarrow> Unmounted)
     else Placeholder)"

text \<open>
  \<open>qrRef.current?.querySelector('canvas')\<close>: the ref is attached only in the first
  branch, so it is \<open>null\<close> while the placeholder is shown, and after the tree has been
  unmounted.
\<close>

definition canvas :: "(canvas_props \<Rightarrow> 'c option) \<Rightarrow> 'c app_state \<Rightarrow> 'c option" where
  "canvas R w =
    (case render_preview R w of QRPreview c \<Rightarrow> Some c | Placeholder \<Rightarrow> None | Unmounted \<Rightarrow> None)"

section \<open>The export actions\<close>

text \<open>
  \<open>downloadQRCode\<close>: without a canvas, \<open>toast.error('No QR code to download')\<close> and
  return; otherwise a link with \<open>download = 'qrcode.png'\<close> and the PNG data URL of the
  canvas is clicked, then \<open>toast.success('QR Code downloaded!')\<close>.
\<close>

definition downloadQRCode ::
  "(canvas_props \<Rightarrow> 'c option) \<Rightarrow> 'c app_state \<Rightarrow> 'c app_state" where
  "downloadQRCode R w =
    (case canvas R w of
       None \<Rightarrow> w\<lparr>toasts := toasts w @ [ToastError ''No QR code to download'']\<rparr>
     | Some c \<Rightarrow>
         w\<lparr>downloads := downloads w @ [(''qrcode.png'', c)],
           toasts := toasts w @ [ToastSuccess ''QR Code downloaded!'']\<rparr>)"

text \<open>
  \<open>copyToClipboard\<close> is \<open>async\<close>. Up to its first \<open>await\<close> it runs in the click: without
  a canvas, \<open>toast.error('No QR code to copy')\<close> and return; otherwise the canvas is
  handed to \<open>toBlob\<close> and the function is suspended, the state untouched.
\<close>

datatype 'c copy_task = Finished "'c app_state" | AwaitingWrite 'c "'c app_state"

definition copy_click :: "(canvas_props \<Rightarrow> 'c option) \<Rightarrow> 'c app_state \<Rightarrow> 'c copy_task" where
  "copy_click R w =
    (case canvas R w of
       None \<Rightarrow> Finished (w\<lparr>toasts := toasts w @ [ToastError ''No QR code to copy'']\<rparr>)
     | Some c \<Rightarrow> AwaitingWrite c w)"

text \<open>
  What the runtime does with \<open>navigator.clipboard.write\<close> inside the \<open>try\<close>: the promise
  resolves, the promise rejects, or the capability is absent and the call itself throws.
\<close>

datatype clipboard_outcome = WriteResolved | WriteRejected | ClipboardMissing

text \<open>
  The rest of \<open>copyToClipboard\<close>, run on the state of the moment the write settles, with
  the blob taken at the click. Resolved: \<open>setCopied(true)\<close>,
  \<open>toast.success('Copied to clipboard!')\<close>, \<open>setTimeout(() => setCopied(false), 2000)\<close>.
  Anything thrown or rejected lands in the \<open>catch\<close>: \<open>console.error('Failed to copy:', err)\<close>
  and \<open>toast.error('Copy not supported in this browser')\<close>.
\<close>

definition copy_resume :: "clipboard_outcome \<Rightarrow> 'c \<Rightarrow> 'c app_state \<Rightarrow> 'c app_state" where
  "copy_resume outcome blob w =
    (case outcome of
       WriteResolved \<Rightarrow>
         w\<lparr>clipboard := Some blob,
           copied := True,
           toasts := toasts w @ [ToastSuccess ''Copied to clipboard!''],
           timers := timers w @ [now w + 2000]\<rparr>
     | _ \<Rightarrow>
         w\<lparr>console := console w @ [''Failed to copy:''],
           toasts := toasts w @ [ToastError ''Copy not supported in this browser'']\<rparr>)"

text \<open>A run of \<open>copyToClipboard\<close> whose write settles before any other event.\<close>

definition copyToClipboard ::
  "(canvas_props \<Rightarrow> 'c option) \<Rightarrow> clipboard_outcome \<Rightarrow> 'c app_state \<Rightarrow> 'c app_state" where
  "copyToClipboard R outcome w =
    (case copy_click R w of
       Finished w' \<Rightarrow> w'
     | AwaitingWrite blob w' \<Rightarrow> copy_resume outcome blob w')"

text \<open>
  The clock moves on by \<open>d\<close> milliseconds. Every timer that is due by then runs its
  callback \<open>setCopied(false)\<close> and is gone; the others stay.
\<close>

definition advance :: "nat \<Rightarrow> 'c app_state \<Rightarrow> 'c app_state" where
  "advance d w =
    w\<lparr>now := now w + d,
      copied := (if filter (\<lambda>due. due \<le> now w + d) (timers w) = [] then copied w else False),
      timers := filter (\<lambda>due. now w + d < due) (timers w)\<rparr>"

section \<open>Sequences of events\<close>

text \<open>
  What can happen to the component: the user types, moves a control, picks a preset,
  resets, downloads, or copies (the write settling at once, with the given outcome), or
  time passes. The controls and buttons are part of what \<open>App\<close> renders, so once the
  tree is unmounted no handler can be called any more; time still passes.
\<close>

datatype event =
    TextChange string
  | UpdateOption binding
  | ApplyPreset PresetStyle
  | ResetAll
  | Download
  | Copy clipboard_outcome
  | Elapse nat

fun handler :: "(canvas_props \<Rightarrow> 'c option) \<Rightarrow> event \<Rightarrow> 'c app_state \<Rightarrow> 'c app_state" where
  "handler R (TextChange v) w = handleTextChange v w"
| "handler R (UpdateOption b) w = updateOption b w"
| "handler R (ApplyPreset preset) w = applyPreset preset w"
| "handler R ResetAll w = resetOptions w"
| "handler R Download w = downloadQRCode R w"
| "handler R (Copy outcome) w = copyToClipboard R outcome w"
| "handler R (Elapse d) w = advance d w"

fun is_elapse :: "event \<Rightarrow> bool" where
  "is_elapse (Elapse _) = True"
| "is_elapse _ = False"

definition step :: "(canvas_props \<Rightarrow> 'c option) \<Rightarrow> event \<Rightarrow> 'c app_state \<Rightarrow> 'c app_state" where
  "step R e w =
    (if render_preview R w = Unmounted \<and> \<not> is_elapse e then w else handler R e w)"

fun run :: "(canvas_props \<Rightarrow> 'c option) \<Rightarrow> event list \<Rightarrow> 'c app_state \<Rightarrow> 'c app_state" where
  "run R [] w = w"
| "run R (e # es) w = run R es (step R e w)"



section \<open>A rendering capability with the limits of a QR symbol\<close>

text \<open>
  The library \<open>qrcode.react\<close> is not part of the repository, and every theorem about the
  application below holds for any rendering capability \<open>R\<close>. For the concrete instances
  this is a capability with the limits the library has: a text of digits only is encoded
  in numeric mode, a text over the 45 alphanumeric characters of QR in alphanumeric
  mode, any other text as its UTF-8 bytes; the largest symbol (version 40) holds, at the
  levels L, M, Q and H, 7089, 5596, 3993 and 3057 digits, 4296, 3391, 2420 and 1852
  alphanumeric characters, or 2953, 2331, 1663 and 1273 bytes. A longer text makes
  the component throw. The canvas depends on the props only, so it is identified with
  them.
\<close>

datatype segment_mode = NUMERIC | ALPHANUMERIC | BYTE

definition segment_mode_of :: "string \<Rightarrow> segment_mode" where
  "segment_mode_of s =
    (if \<forall>c \<in> set s. c \<in> set ''0123456789'' then NUMERIC
     else if \<forall>c \<in> set s. c \<in> set ''0123456789ABCDEFGHIJKLMNOPQRSTUVWXYZ $%*+./:-''
       then ALPHANUMERIC
     else BYTE)"

fun version40_capacity :: "segment_mode \<Rightarrow> ErrorCorrectionLevel \<Rightarrow> nat" where
  "version40_capacity NUMERIC L = 7089"
| "version40_capacity NUMERIC M = 5596"
| "version40_capacity NUMERIC Q = 3993"
| "version40_capacity NUMERIC H = 3057"
| "version40_capacity ALPHANUMERIC L = 4296"
| "version40_capacity ALPHANUMERIC M = 3391"
| "version40_capacity ALPHANUMERIC Q = 2420"
| "version40_capacity ALPHANUMERIC H = 1852"
| "version40_capacity BYTE L = 2953"
| "version40_capacity BYTE M = 2331"
| "version40_capacity BYTE Q = 1663"
| "version40_capacity BYTE H = 1273"

definition QRCodeCanvas :: "canvas_props \<Rightarrow> canvas_props option" where
  "QRCodeCanvas p =
    (if length (c_value p) \<le> version40_capacity (segment_mode_of (c_value p)) (c_level p)
     then Some p else None)"

section \<open>The specification's contracts, as the specification words them\<close>

text \<open>The notifications a handler added to the log, taking \<open>w\<close> to \<open>w'\<close>.\<close>

definition emitted :: "'c app_state \<Rightarrow> 'c app_state \<Rightarrow> toast list" where
  "emitted w w' = drop (length (toasts w)) (toasts w')"

fun is_error :: "toast \<Rightarrow> bool" where
  "is_error (ToastError _) = True"
| "is_error (ToastSuccess _) = False"

text \<open>
  The specification's contract for an encoding failure: when the text typed is not empty
  and the rendering capability cannot encode it with the current options, an error
  notification is emitted.
\<close>

definition encoding_failure_surfaced ::
  "(canvas_props \<Rightarrow> 'c option) \<Rightarrow> string \<Rightarrow> 'c app_state \<Rightarrow> bool" where
  "encoding_failure_surfaced R v w \<longleftrightarrow>
    (v \<noteq> [] \<and> R (QRCodeCanvas_props (handleTextChange v w)) = None
      \<longrightarrow> list_ex is_error (emitted w (handleTextChange v w)))"

text \<open>
  The specification's contract for the preview: with empty text there is no canvas and
  the placeholder is shown, and there is a canvas exactly when the text is not empty.
\<close>

definition surface_contract :: "(canvas_props \<Rightarrow> 'c option) \<Rightarrow> 'c app_state \<Rightarrow> bool" where
  "surface_contract R w \<longleftrightarrow>
    (text_state w = [] \<longrightarrow> canvas R w = None \<and> render_preview R w = Placeholder)
    \<and> (canvas R w \<noteq> None) = (text_state w \<noteq> [])"


section \<open>Preset application\<close>

text \<open>
  C1. In every state, \<open>applyPreset preset\<close> sets \<open>bgColor\<close> to the preset's background
  and \<open>fgColor\<close> to the preset's foreground, and leaves size, level, includeMargin,
  marginSize (and the optional imageSettings) and the text as they were.
\<close>

theorem applyPreset_changes_only_colours:
  "bgColor (options (applyPreset preset w)) = p_bgColor preset
   \<and> fgColor (options (applyPreset preset w)) = p_fgColor preset
   \<and> size_px (options (applyPreset preset w)) = size_px (options w)
   \<and> level (options (applyPreset preset w)) = level (options w)
   \<and> includeMargin (options (applyPreset preset w)) = includeMargin (options w)
   \<and> marginSize (options (applyPreset preset w)) = marginSize (options w)
   \<and> imageSettings (options (applyPreset preset w)) = imageSettings (options w)
   \<and> text_state (applyPreset preset w) = text_state w"
  by (simp add: applyPreset_def)

text \<open>
  C9. Applying the same preset twice in a row gives the same configuration (and the
  same text) as applying it once.
\<close>

theorem applyPreset_idempotent:
  "options (applyPreset preset (applyPreset preset w)) = options (applyPreset preset w)
   \<and> text_state (applyPreset preset (applyPreset preset w)) = text_state (applyPreset preset w)"
  by (simp add: applyPreset_def)

section \<open>Reset\<close>

text \<open>
  C2. Whatever the state before, \<open>resetOptions\<close> leaves the configuration
  \<open>{ size: 300, level: 'M', bgColor: '#FFFFFF', fgColor: '#000000', includeMargin: true,
  marginSize: 4 }\<close>, which is the configuration the component starts with, and the
  empty text.
\<close>

theorem resetOptions_restores_defaults:
  "options (resetOptions w) =
     \<lparr>size_px = 300, level = M, bgColor = ''#FFFFFF'', fgColor = ''#000000'',
      includeMargin = True, marginSize = 4, imageSettings = None\<rparr>
   \<and> options (resetOptions w) = options (initial_state :: 'c app_state)
   \<and> text_state (resetOptions (w :: 'c app_state)) = []"
  by (simp add: resetOptions_def initial_state_def initial_options_def)

section \<open>Option updates\<close>

text \<open>
  C3. For every state, every key and every value of that key's type, after
  \<open>updateOption\<close> the field named by the key holds the value and every other field of
  the configuration holds what it held before.
\<close>

theorem updateOption_shallow_merge:
  "lookup (key_of b) (options (updateOption b w)) = b
   \<and> (\<forall>k. k \<noteq> key_of b \<longrightarrow> lookup k (options (updateOption b w)) = lookup k (options w))"
proof
  show "lookup (key_of b) (options (updateOption b w)) = b"
    by (cases b) (simp_all add: updateOption_def)
next
  show "\<forall>k. k \<noteq> key_of b \<longrightarrow> lookup k (options (updateOption b w)) = lookup k (options w)"
  proof (intro allI impI)
    fix k assume "k \<noteq> key_of b"
    then show "lookup k (options (updateOption b w)) = lookup k (options w)"
      by (cases b; cases k) (simp_all add: updateOption_def)
  qed
qed

theorem updateOption_shallow_merge_witness:
  "lookup K_size (options (updateOption (Size 250) (initial_state :: unit app_state))) = Size 250
   \<and> K_level \<noteq> key_of (Size 250)
   \<and> lookup K_level (options (updateOption (Size 250) (initial_state :: unit app_state))) = Level M"
proof -
  note merge = updateOption_shallow_merge [of "Size 250" "initial_state :: unit app_state"]
  have distinct_keys: "K_level \<noteq> key_of (Size 250)"
    by simp
  from merge have "lookup K_size (options (updateOption (Size 250) (initial_state :: unit app_state))) = Size 250"
    by simp
  moreover from merge distinct_keys
  have "lookup K_level (options (updateOption (Size 250) (initial_state :: unit app_state)))
      = lookup K_level (options (initial_state :: unit app_state))"
    by blast
  then have "lookup K_level (options (updateOption (Size 250) (initial_state :: unit app_state))) = Level M"
    by (simp add: initial_state_def initial_options_def)
  ultimately show ?thesis
    using distinct_keys by blast
qed


section \<open>Concrete states\<close>


lemma data_too_long_at_M:
  "QRCodeCanvas (QRCodeCanvas_props
     (handleTextChange (replicate 2332 CHR ''a'') (initial_state :: 'c app_state))) = None"
  by (simp add: QRCodeCanvas_def QRCodeCanvas_props_def segment_mode_of_def
      handleTextChange_def initial_state_def initial_options_def)

lemma data_too_long_at_H:
  "QRCodeCanvas (QRCodeCanvas_props
     (updateOption (Level H)
       (handleTextChange (replicate 2000 CHR ''a'') (initial_state :: 'c app_state)))) = None"
  by (simp add: QRCodeCanvas_def QRCodeCanvas_props_def segment_mode_of_def updateOption_def
      handleTextChange_def initial_state_def initial_options_def)

section \<open>The preview\<close>

text \<open>
  C8, as the specification states it, fails: 2332 letters \<open>a\<close> at level M are a text that
  is not empty and that no QR symbol holds. \<open>QRCodeCanvas\<close> throws, the tree is
  unmounted, and there is no canvas although the text is not empty.
\<close>

theorem surface_iff_text_counterexample:
  "\<not> surface_contract QRCodeCanvas
       (handleTextChange (replicate 2332 CHR ''a'') (initial_state :: canvas_props app_state))"
proof -
  have "canvas QRCodeCanvas
      (handleTextChange (replicate 2332 CHR ''a'') (initial_state :: canvas_props app_state)) = None"
    using data_too_long_at_M [where ?'c = canvas_props]
    by (simp add: canvas_def render_preview_def handleTextChange_def)
  moreover have "text_state
      (handleTextChange (replicate 2332 CHR ''a'') (initial_state :: canvas_props app_state)) \<noteq> []"
    by (simp add: handleTextChange_def)
  ultimately show ?thesis
    by (simp add: surface_contract_def)
qed

text \<open>
  C8, amended. With empty text there is no canvas and the placeholder is shown, and the
  placeholder is shown only then. There is a canvas exactly when the text is not empty
  and the rendering capability can encode it; with a text that is not empty and that it
  cannot encode there is neither canvas nor placeholder: the tree is unmounted.
\<close>

theorem surface_iff_text_encodable:
  "(text_state w = [] \<longrightarrow> canvas R w = None \<and> render_preview R w = Placeholder)
   \<and> (render_preview R w = Placeholder) = (text_state w = [])
   \<and> (canvas R w \<noteq> None) = (text_state w \<noteq> [] \<and> R (QRCodeCanvas_props w) \<noteq> None)
   \<and> (text_state w \<noteq> [] \<and> R (QRCodeCanvas_props w) = None \<longrightarrow>
        canvas R w = None \<and> render_preview R w = Unmounted)"
  by (cases "R (QRCodeCanvas_props w)") (simp_all add: canvas_def render_preview_def)

theorem surface_iff_text_encodable_witness:
  "text_state (initial_state :: canvas_props app_state) = []
   \<and> render_preview QRCodeCanvas (initial_state :: canvas_props app_state) = Placeholder
   \<and> text_state (handleTextChange (replicate 2332 CHR ''a'')
        (initial_state :: canvas_props app_state)) \<noteq> []
   \<and> QRCodeCanvas (QRCodeCanvas_props (handleTextChange (replicate 2332 CHR ''a'')
        (initial_state :: canvas_props app_state))) = None
   \<and> render_preview QRCodeCanvas (handleTextChange (replicate 2332 CHR ''a'')
        (initial_state :: canvas_props app_state)) = Unmounted"
proof -
  have empty_text: "text_state (initial_state :: canvas_props app_state) = []"
    by (simp add: initial_state_def)
  have long_text: "text_state (handleTextChange (replicate 2332 CHR ''a'')
      (initial_state :: canvas_props app_state)) \<noteq> []"
    by (simp add: handleTextChange_def)
  note too_long = data_too_long_at_M [where ?'c = canvas_props]
  from surface_iff_text_encodable [of "initial_state :: canvas_props app_state" QRCodeCanvas]
    empty_text
  have "render_preview QRCodeCanvas (initial_state :: canvas_props app_state) = Placeholder"
    by blast
  moreover from surface_iff_text_encodable
    [of "handleTextChange (replicate 2332 CHR ''a'') (initial_state :: canvas_props app_state)"
      QRCodeCanvas] long_text too_long
  have "render_preview QRCodeCanvas (handleTextChange (replicate 2332 CHR ''a'')
      (initial_state :: canvas_props app_state)) = Unmounted"
    by blast
  ultimately show ?thesis
    using empty_text long_text too_long by blast
qed

text \<open>
  C10. Two states that differ only in \<open>marginSize\<close> pass the same props to
  \<open>QRCodeCanvas\<close>, so the preview and the canvas are the same.
\<close>

theorem preview_independent_of_marginSize:
  "QRCodeCanvas_props (w\<lparr>options := (options w)\<lparr>marginSize := m\<rparr>\<rparr>) = QRCodeCanvas_props w
   \<and> render_preview R (w\<lparr>options := (options w)\<lparr>marginSize := m\<rparr>\<rparr>) = render_preview R w
   \<and> canvas R (w\<lparr>options := (options w)\<lparr>marginSize := m\<rparr>\<rparr>) = canvas R w"
  by (simp add: canvas_def render_preview_def QRCodeCanvas_props_def)

section \<open>Export without a canvas, and the frame of the export actions\<close>

text \<open>
  C4. When the text is empty, \<open>downloadQRCode\<close> and \<open>copyToClipboard\<close> do nothing but
  emit their error notification (\<open>No QR code to download\<close>, \<open>No QR code to copy\<close>): both
  return normally. In every state, whatever the clipboard does, neither changes the
  configuration or the text; nor does the continuation of a copy when it runs on a
  later state, nor the revert timer when it fires.
\<close>

theorem export_missing_surface:
  "(text_state w = [] \<longrightarrow>
      downloadQRCode R w = w\<lparr>toasts := toasts w @ [ToastError ''No QR code to download'']\<rparr>
      \<and> copyToClipboard R outcome w = w\<lparr>toasts := toasts w @ [ToastError ''No QR code to copy'']\<rparr>)
   \<and> options (downloadQRCode R w) = options w
   \<and> text_state (downloadQRCode R w) = text_state w
   \<and> options (copyToClipboard R outcome w) = options w
   \<and> text_state (copyToClipboard R outcome w) = text_state w
   \<and> options (copy_resume outcome blob w) = options w
   \<and> text_state (copy_resume outcome blob w) = text_state w
   \<and> options (advance d w) = options w
   \<and> text_state (advance d w) = text_state w"
  by (cases outcome; cases "R (QRCodeCanvas_props w)")
    (simp_all add: downloadQRCode_def copyToClipboard_def copy_click_def copy_resume_def
      canvas_def render_preview_def advance_def)

theorem export_missing_surface_witness:
  "text_state (initial_state :: canvas_props app_state) = []
   \<and> downloadQRCode QRCodeCanvas initial_state =
       initial_state\<lparr>toasts := [ToastError ''No QR code to download'']\<rparr>
   \<and> copyToClipboard QRCodeCanvas WriteResolved initial_state =
       initial_state\<lparr>toasts := [ToastError ''No QR code to copy'']\<rparr>"
  using export_missing_surface
    [of "initial_state :: canvas_props app_state" QRCodeCanvas WriteResolved]
  by (simp add: initial_state_def)

section \<open>Copy to the clipboard\<close>



text \<open>
  With a text that is not empty and that the rendering capability encodes, the same
  holds: this is the statement for a capability that never fails.
\<close>

lemma copy_unsupported_total_renderer:
  "text_state w \<noteq> [] \<Longrightarrow> outcome \<noteq> WriteResolved \<Longrightarrow>
   copyToClipboard (\<lambda>p. Some (R p)) outcome w =
     w\<lparr>console := console w @ [''Failed to copy:''],
       toasts := toasts w @ [ToastError ''Copy not supported in this browser'']\<rparr>"
  by (cases outcome)
    (simp_all add: copyToClipboard_def copy_click_def copy_resume_def canvas_def
      render_preview_def)

section \<open>The copied indicator\<close>





text \<open>
  Another copy that succeeds between the click and the resolution of the write turns the
  indicator on before the write resolves, whatever the state at the click.
\<close>

lemma other_copy_turns_indicator_on:
  "copied (run QRCodeCanvas [Copy WriteResolved] (handleTextChange ''hi'' initial_state))"
  by (simp add: step_def copyToClipboard_def copy_click_def copy_resume_def canvas_def
      render_preview_def QRCodeCanvas_def QRCodeCanvas_props_def segment_mode_of_def
      handleTextChange_def initial_state_def initial_options_def)




section \<open>Encoding failures\<close>

text \<open>
  C7, as the specification states it, fails: typing 2332 letters \<open>a\<close> at level M, which
  no QR symbol holds, emits no notification.
\<close>

theorem encoding_failure_counterexample:
  "\<not> encoding_failure_surfaced QRCodeCanvas (replicate 2332 CHR ''a'')
       (initial_state :: canvas_props app_state)"
  using data_too_long_at_M [where ?'c = canvas_props]
  by (simp add: encoding_failure_surfaced_def emitted_def handleTextChange_def)

text \<open>
  C7, amended. When a change of the text or of an option leaves a text that is not empty
  and that the rendering capability cannot encode, the application surfaces nothing: the
  change emits no notification, and the failure, which the application does not catch,
  leaves neither a canvas nor the placeholder (the tree is unmounted).
\<close>

theorem encoding_failure_not_surfaced:
  "(v \<noteq> [] \<and> R (QRCodeCanvas_props (handleTextChange v w)) = None \<longrightarrow>
      emitted w (handleTextChange v w) = []
      \<and> render_preview R (handleTextChange v w) = Unmounted
      \<and> canvas R (handleTextChange v w) = None)
   \<and> (text_state w \<noteq> [] \<and> R (QRCodeCanvas_props (updateOption b w)) = None \<longrightarrow>
      emitted w (updateOption b w) = []
      \<and> render_preview R (updateOption b w) = Unmounted
      \<and> canvas R (updateOption b w) = None)"
  by (simp add: emitted_def canvas_def render_preview_def handleTextChange_def updateOption_def)

theorem encoding_failure_not_surfaced_witness:
  "replicate 2332 CHR ''a'' \<noteq> []
   \<and> QRCodeCanvas (QRCodeCanvas_props (handleTextChange (replicate 2332 CHR ''a'')
        (initial_state :: canvas_props app_state))) = None
   \<and> emitted (initial_state :: canvas_props app_state)
        (handleTextChange (replicate 2332 CHR ''a'') initial_state) = []
   \<and> render_preview QRCodeCanvas (handleTextChange (replicate 2332 CHR ''a'')
        (initial_state :: canvas_props app_state)) = Unmounted
   \<and> text_state (handleTextChange (replicate 2000 CHR ''a'')
        (initial_state :: canvas_props app_state)) \<noteq> []
   \<and> QRCodeCanvas (QRCodeCanvas_props (updateOption (Level H)
        (handleTextChange (replicate 2000 CHR ''a'') (initial_state :: canvas_props app_state))))
       = None
   \<and> render_preview QRCodeCanvas (updateOption (Level H)
        (handleTextChange (replicate 2000 CHR ''a'') (initial_state :: canvas_props app_state)))
       = Unmounted"
proof -
  let ?long = "replicate 2332 CHR ''a''"
  let ?w = "handleTextChange (replicate 2000 CHR ''a'') (initial_state :: canvas_props app_state)"
  have typed: "?long \<noteq> []"
    by simp
  note too_long_M = data_too_long_at_M [where ?'c = canvas_props]
  have text_present: "text_state ?w \<noteq> []"
    by (simp add: handleTextChange_def)
  note too_long_H = data_too_long_at_H [where ?'c = canvas_props]
  from encoding_failure_not_surfaced
    [of ?long QRCodeCanvas "initial_state :: canvas_props app_state"] typed too_long_M
  have "emitted (initial_state :: canvas_props app_state) (handleTextChange ?long initial_state) = []
      \<and> render_preview QRCodeCanvas
          (handleTextChange ?long (initial_state :: canvas_props app_state)) = Unmounted"
    by blast
  moreover from encoding_failure_not_surfaced [of _ QRCodeCanvas ?w "Level H"]
    text_present too_long_H
  have "render_preview QRCodeCanvas (updateOption (Level H) ?w) = Unmounted"
    by blast
  ultimately show ?thesis
    using typed too_long_M text_present too_long_H by blast
qed

end
